theory Spec2Isabelle
  imports Complex_Main
begin

section \<open>Values\<close>

text \<open>
  \<^verbatim>\<open>schemas.py\<close> declares pydantic shapes: each class lists its fields, their types and
  their defaults. The declarations are transcribed below as tables; what the base class
  \<^verbatim>\<open>BaseModel\<close> does with such a table (look every declared field up, coerce it, collect
  the errors) is written out once, as the functions \<open>validate\<close>, \<open>validate_list\<close> and
  \<open>validate_fields\<close>.

  A Python \<^verbatim>\<open>str\<close> is a \<open>string\<close>: a list of characters with code points below 256.
  A Python \<^verbatim>\<open>float\<close> is carried as a \<open>real\<close>: the file performs no arithmetic on
  floats, it stores them. A \<^verbatim>\<open>datetime\<close> is never inspected either and is carried as an
  opaque timestamp, the count of microseconds since the earliest \<^verbatim>\<open>datetime\<close>.
\<close>

datatype datetime = Timestamp nat

text \<open>\<^verbatim>\<open>class UserRole(str, Enum): ADMIN = "admin"; WORKER = "worker"\<close>\<close>

datatype UserRole = ADMIN | WORKER


text \<open>Looking a member up by value, \<^verbatim>\<open>UserRole(s)\<close>: exact, case-sensitive.\<close>

definition UserRole_of :: "string \<Rightarrow> UserRole option" where
  "UserRole_of s =
     (if s = ''admin'' then Some ADMIN else if s = ''worker'' then Some WORKER else None)"

text \<open>
  What arrives at a shape: the values of a deserialised payload (\<open>RDict\<close> is a mapping,
  in the order of its keys) or of a stored record (\<open>RObj\<close> is an object with attributes).
\<close>

datatype raw =
    RNone
  | RBool bool
  | RInt int
  | RFloat real
  | RStr string
  | RDatetime datetime
  | RRole UserRole
  | RList "raw list"
  | RDict "(string \<times> raw) list"
  | RObj "(string \<times> raw) list"

text \<open>
  What a shape holds after validation. An instance \<open>VModel c vs fs\<close> has the class name
  \<open>c\<close>, the field values \<open>vs\<close> in declaration order and \<open>fs\<close>, the names of the fields
  that the input supplied (pydantic's \<^verbatim>\<open>model_fields_set\<close>), in declaration order.
\<close>

datatype val =
    VNone
  | VBool bool
  | VInt int
  | VFloat real
  | VStr string
  | VDatetime datetime
  | VRole UserRole
  | VList "val list"
  | VDict "(string \<times> raw) list"
  | VModel string "(string \<times> val) list" "string list"

section \<open>Errors\<close>

datatype loc_item = Key string | Idx nat

text \<open>
  The reasons for which a field is refused: it is required and absent, its value cannot
  be coerced to the declared type, it is not a value of the enum, or a validator of the
  class raised \<^verbatim>\<open>ValueError\<close> with a message.
\<close>

datatype reason = Missing | Coercion | Enum_value | Value_error string

type_synonym error_line = "loc_item list \<times> reason"

text \<open>
  The exceptions. A validator raises \<^verbatim>\<open>ValueError\<close>; calling \<^verbatim>\<open>v.lower()\<close> on a value
  that is not a string would raise \<^verbatim>\<open>AttributeError\<close>. The base class turns a
  \<^verbatim>\<open>ValueError\<close> of a validator into a line of its \<^verbatim>\<open>ValidationError\<close>; any other
  exception of a validator leaves the constructor as it is.
\<close>

datatype exn =
    ValidationError "error_line list"
  | ValueError string
  | AttributeError string

section \<open>The image URL validator\<close>

text \<open>
  \<^verbatim>\<open>str.lower()\<close> on code points below 256: the letters \<^verbatim>\<open>A-Z\<close> and the capital
  letters of Latin-1 (192 to 222, without the multiplication sign 215) move up by 32.
\<close>

definition lower_char :: "char \<Rightarrow> char" where
  "lower_char c =
     (let n = (of_char c :: nat)
      in if (65 \<le> n \<and> n \<le> 90) \<or> (192 \<le> n \<and> n \<le> 222 \<and> n \<noteq> 215)
         then char_of (n + 32) else c)"

definition lower :: "string \<Rightarrow> string" where
  "lower s = map lower_char s"

text \<open>\<^verbatim>\<open>s.endswith(ext)\<close>\<close>

definition endswith :: "string \<Rightarrow> string \<Rightarrow> bool" where
  "endswith s ext =
     (length ext \<le> length s \<and> drop (length s - length ext) s = ext)"

definition allowed_extensions :: "string list" where
  "allowed_extensions = [''.jpg'', ''.jpeg'', ''.png'', ''.webp'', ''.gif'']"

text \<open>
  \<^verbatim>\<open>
  @validator("url")
  def validate_image_url(cls, v):
      allowed_extensions = [".jpg", ".jpeg", ".png", ".webp", ".gif"]
      if not any(v.lower().endswith(ext) for ext in allowed_extensions):
          raise ValueError("Invalid image format")
      return v
  \<close>
\<close>

definition validate_image_url :: "string \<Rightarrow> exn + string" where
  "validate_image_url v =
     (if \<not> list_ex (\<lambda>ext. endswith (lower v) ext) allowed_extensions
      then Inl (ValueError ''Invalid image format'')
      else Inr v)"

text \<open>The validators that the file defines, and what each does to the value of its field.\<close>

datatype validator = Validate_image_url

fun run_validator :: "validator \<Rightarrow> val \<Rightarrow> exn + val" where
  "run_validator Validate_image_url (VStr s) = map_sum id VStr (validate_image_url s)"
| "run_validator Validate_image_url _ =
     Inl (AttributeError ''object has no attribute lower'')"

section \<open>Shapes\<close>

text \<open>
  The type of a field, as the annotations of the file use them: \<^verbatim>\<open>int\<close>, \<^verbatim>\<open>float\<close>,
  \<^verbatim>\<open>str\<close>, \<^verbatim>\<open>bool\<close>, \<^verbatim>\<open>datetime\<close>, \<^verbatim>\<open>EmailStr\<close>, \<^verbatim>\<open>UserRole\<close>, \<^verbatim>\<open>dict\<close>,
  \<^verbatim>\<open>Optional[t]\<close>, \<^verbatim>\<open>List[t]\<close> and another shape. A shape has a name, the setting
  \<^verbatim>\<open>from_attributes\<close> of its \<^verbatim>\<open>Config\<close>, its fields and its validators. A field has a
  name, a type and, unless it is required, a default.
\<close>

datatype ftype =
    TInt | TFloat | TStr | TBool | TDatetime | TEmailStr | TUserRole | TDict
  | TOptional ftype
  | TList ftype
  | TModel model
and model =
    Model (mname: string) (from_attributes: bool) (mfields: "field list")
      (mvalidators: "(string \<times> validator) list")
and field =
    FieldInfo (fname: string) (ftype: ftype) (fdefault: "val option")

section \<open>The library\<close>

text \<open>
  pydantic and the email validator are not part of the repository. The file is written
  against pydantic 2 (\<^verbatim>\<open>from_attributes\<close> is its name for reading records), with the
  class-based \<^verbatim>\<open>Config\<close> and the \<^verbatim>\<open>validator\<close> decorator that it still accepts. Where
  the value already has the declared type the outcome is fixed and written out in
  \<open>validate\<close>.
  The further, lax conversions (a numeric string for an \<^verbatim>\<open>int\<close>, a timestamp or an
  ISO-8601 string for a \<^verbatim>\<open>datetime\<close>, ...) and the check of an email address are
  parameters: every theorem below holds whatever they are.
\<close>

record lib =
  lax_int :: "raw \<Rightarrow> int option"
  lax_float :: "raw \<Rightarrow> real option"
  lax_str :: "raw \<Rightarrow> string option"
  lax_bool :: "raw \<Rightarrow> bool option"
  lax_datetime :: "raw \<Rightarrow> datetime option"
  validate_email :: "string \<Rightarrow> string option"
  isoformat :: "datetime \<Rightarrow> string"

definition from_option :: "'a option \<Rightarrow> ('a \<Rightarrow> val) \<Rightarrow> exn + val" where
  "from_option r c =
     (case r of None \<Rightarrow> Inl (ValidationError [([], Coercion)]) | Some x \<Rightarrow> Inr (c x))"

text \<open>The errors below a field or a list item carry its name or index in front.\<close>

definition located :: "loc_item \<Rightarrow> error_line list \<Rightarrow> error_line list" where
  "located k ls = map (\<lambda>(loc, r). (k # loc, r)) ls"

text \<open>The validators of a field run in order on the coerced value, until one raises.\<close>

fun run_validators :: "validator list \<Rightarrow> val \<Rightarrow> exn + val" where
  "run_validators [] v = Inr v"
| "run_validators (f # fs) v =
     (case run_validator f v of
        Inl (ValueError m) \<Rightarrow> Inl (ValidationError [([], Value_error m)])
      | Inl e \<Rightarrow> Inl e
      | Inr v' \<Rightarrow> run_validators fs v')"

definition validators_of :: "(string \<times> validator) list \<Rightarrow> string \<Rightarrow> validator list" where
  "validators_of vs n = map snd (filter (\<lambda>(k, f). k = n) vs)"

text \<open>
  Joining the outcome of one field (or list item) \<open>r\<close>, located at \<open>k\<close>, with the outcome
  \<open>rest\<close> of the fields after it: error lines are collected, in order; an exception
  that is not a \<^verbatim>\<open>ValidationError\<close> ends the construction.
\<close>

fun join :: "loc_item \<Rightarrow> exn + 'a \<Rightarrow> exn + 'b \<Rightarrow> ('a \<Rightarrow> 'b \<Rightarrow> 'b) \<Rightarrow> exn + 'b" where
  "join k (Inl (ValidationError ls)) (Inl (ValidationError ms)) g =
     Inl (ValidationError (located k ls @ ms))"
| "join k (Inl (ValidationError ls)) (Inr y) g = Inl (ValidationError (located k ls))"
| "join k (Inl (ValidationError ls)) (Inl e) g = Inl e"
| "join k (Inl e) rest g = Inl e"
| "join k (Inr x) (Inl e) g = Inl e"
| "join k (Inr x) (Inr y) g = Inr (g x y)"


section \<open>Validation\<close>

definition refuse :: "reason \<Rightarrow> exn + 'a" where
  "refuse r = Inl (ValidationError [([], r)])"

text \<open>
  The outcome of one field: its value and whether the input supplied it. A field that
  the input lacks takes its default, which is stored as declared, without validation;
  a required field is then missing. A field that the input has is coerced to its type
  and then handed to the validators of the class for this field.
\<close>

definition supplied :: "exn + val \<Rightarrow> exn + val \<times> bool" where
  "supplied r = map_sum id (\<lambda>w. (w, True)) r"

definition absent :: "val option \<Rightarrow> exn + val \<times> bool" where
  "absent d = (case d of None \<Rightarrow> refuse Missing | Some dv \<Rightarrow> Inr (dv, False))"

definition then_validators :: "validator list \<Rightarrow> exn + val \<Rightarrow> exn + val" where
  "then_validators fs r = (case r of Inl e \<Rightarrow> Inl e | Inr w \<Rightarrow> run_validators fs w)"

definition add_field ::
  "string \<Rightarrow> val \<times> bool \<Rightarrow> (string \<times> val) list \<times> string list
     \<Rightarrow> (string \<times> val) list \<times> string list" where
  "add_field n wb acc =
     ((n, fst wb) # fst acc, if snd wb then n # snd acc else snd acc)"

definition new_instance :: "string \<Rightarrow> (string \<times> val) list \<times> string list \<Rightarrow> val" where
  "new_instance c acc = VModel c (fst acc) (snd acc)"

fun validate :: "lib \<Rightarrow> ftype \<Rightarrow> raw \<Rightarrow> exn + val"
and validate_list :: "lib \<Rightarrow> ftype \<Rightarrow> nat \<Rightarrow> raw list \<Rightarrow> exn + val list"
and validate_fields ::
  "lib \<Rightarrow> (string \<times> validator) list \<Rightarrow> field list \<Rightarrow> (string \<times> raw) list
     \<Rightarrow> exn + (string \<times> val) list \<times> string list"
where
  "validate L TInt v =
     (case v of RInt n \<Rightarrow> Inr (VInt n) | _ \<Rightarrow> from_option (lax_int L v) VInt)"
| "validate L TFloat v =
     (case v of RFloat x \<Rightarrow> Inr (VFloat x) | RInt n \<Rightarrow> Inr (VFloat (of_int n))
      | _ \<Rightarrow> from_option (lax_float L v) VFloat)"
| "validate L TStr v =
     (case v of RStr s \<Rightarrow> Inr (VStr s) | _ \<Rightarrow> from_option (lax_str L v) VStr)"
| "validate L TBool v =
     (case v of RBool b \<Rightarrow> Inr (VBool b) | _ \<Rightarrow> from_option (lax_bool L v) VBool)"
| "validate L TDatetime v =
     (case v of RDatetime d \<Rightarrow> Inr (VDatetime d)
      | _ \<Rightarrow> from_option (lax_datetime L v) VDatetime)"
| "validate L TEmailStr v =
     (case v of RStr s \<Rightarrow> from_option (validate_email L s) VStr | _ \<Rightarrow> refuse Coercion)"
| "validate L TUserRole v =
     (case v of RRole r \<Rightarrow> Inr (VRole r)
      | RStr s \<Rightarrow> (case UserRole_of s of Some r \<Rightarrow> Inr (VRole r) | None \<Rightarrow> refuse Enum_value)
      | _ \<Rightarrow> refuse Enum_value)"
| "validate L TDict v =
     (case v of RDict kv \<Rightarrow> Inr (VDict kv) | _ \<Rightarrow> refuse Coercion)"
| "validate L (TOptional t) v = (if v = RNone then Inr VNone else validate L t v)"
| "validate L (TList t) v =
     (case v of RList xs \<Rightarrow> map_sum id VList (validate_list L t 0 xs)
      | _ \<Rightarrow> refuse Coercion)"
| "validate L (TModel (Model c fa fs vs)) v =
     (case v of
        RDict kv \<Rightarrow> map_sum id (new_instance c) (validate_fields L vs fs kv)
      | RObj kv \<Rightarrow>
          (if fa then map_sum id (new_instance c) (validate_fields L vs fs kv)
           else refuse Coercion)
      | _ \<Rightarrow> refuse Coercion)"
| "validate_list L t i [] = Inr []"
| "validate_list L t i (x # xs) =
     join (Idx i) (validate L t x) (validate_list L t (Suc i) xs) (#)"
| "validate_fields L vs [] kv = Inr ([], [])"
| "validate_fields L vs (FieldInfo n t d # fs) kv =
     join (Key n)
       (case map_of kv n of
          None \<Rightarrow> absent d
        | Some v \<Rightarrow> supplied (then_validators (validators_of vs n) (validate L t v)))
       (validate_fields L vs fs kv)
       (add_field n)"

text \<open>
  The constructor of a shape, called with the entries of a mapping as keyword
  arguments, builds an instance from the mapping; \<^verbatim>\<open>M.model_validate(obj)\<close> builds one
  from a mapping or, where \<^verbatim>\<open>from_attributes\<close> is set, from an object.
\<close>

definition model_init :: "lib \<Rightarrow> model \<Rightarrow> (string \<times> raw) list \<Rightarrow> exn + val" where
  "model_init L M payload = validate L (TModel M) (RDict payload)"

definition model_validate :: "lib \<Rightarrow> model \<Rightarrow> raw \<Rightarrow> exn + val" where
  "model_validate L M obj = validate L (TModel M) obj"


section \<open>The shapes of \<^verbatim>\<open>schemas.py\<close>\<close>

text \<open>
  \<^verbatim>\<open>class C(BaseModel)\<close> starts from no fields; \<^verbatim>\<open>class C(B)\<close> keeps the fields,
  the validators and the configuration of \<open>B\<close> and adds its own fields after them;
  \<^verbatim>\<open>class Config: from_attributes = True\<close> sets the flag.
\<close>

definition BaseModel :: "string \<Rightarrow> field list \<Rightarrow> model" where
  "BaseModel c fs = Model c False fs []"

definition extend :: "model \<Rightarrow> string \<Rightarrow> field list \<Rightarrow> model" where
  "extend B c fs = Model c (from_attributes B) (mfields B @ fs) (mvalidators B)"

definition Config_from_attributes :: "model \<Rightarrow> model" where
  "Config_from_attributes M = Model (mname M) True (mfields M) (mvalidators M)"

definition with_validator :: "string \<Rightarrow> validator \<Rightarrow> model \<Rightarrow> model" where
  "with_validator n f M =
     Model (mname M) (from_attributes M) (mfields M) (mvalidators M @ [(n, f)])"

text \<open>\<^verbatim>\<open>n: t\<close>, \<^verbatim>\<open>n: Optional[t] = None\<close> and \<^verbatim>\<open>n: t = v\<close>\<close>

definition required :: "string \<Rightarrow> ftype \<Rightarrow> field" where
  "required n t = FieldInfo n t None"

definition optional :: "string \<Rightarrow> ftype \<Rightarrow> field" where
  "optional n t = FieldInfo n (TOptional t) (Some VNone)"

definition default_to :: "string \<Rightarrow> ftype \<Rightarrow> val \<Rightarrow> field" where
  "default_to n t v = FieldInfo n t (Some v)"

definition UserResponse :: model where
  "UserResponse = Config_from_attributes (BaseModel ''UserResponse''
     [required ''id'' TInt,
      required ''username'' TStr,
      required ''email'' TStr,
      required ''full_name'' TStr,
      required ''role'' TStr,
      optional ''branch_id'' TInt,
      required ''is_active'' TBool,
      required ''is_superuser'' TBool,
      required ''created_at'' TDatetime])"

definition BranchBase :: model where
  "BranchBase = BaseModel ''BranchBase''
     [required ''name'' TStr,
      optional ''location'' TStr,
      optional ''address'' TStr,
      optional ''phone'' TStr,
      optional ''email'' TStr,
      default_to ''is_active'' TBool (VBool True)]"

definition BranchCreate :: model where
  "BranchCreate = extend BranchBase ''BranchCreate'' []"

definition BranchUpdate :: model where
  "BranchUpdate = BaseModel ''BranchUpdate''
     [optional ''name'' TStr,
      optional ''location'' TStr,
      optional ''address'' TStr,
      optional ''phone'' TStr,
      optional ''email'' TStr,
      optional ''is_active'' TBool]"

definition BranchResponse :: model where
  "BranchResponse = Config_from_attributes (extend BranchBase ''BranchResponse''
     [required ''id'' TInt,
      required ''created_at'' TDatetime,
      required ''updated_at'' TDatetime])"

definition ExpenseCategoryBase :: model where
  "ExpenseCategoryBase = BaseModel ''ExpenseCategoryBase''
     [required ''name'' TStr,
      optional ''description'' TStr,
      default_to ''is_active'' TBool (VBool True)]"

definition ExpenseCategoryResponse :: model where
  "ExpenseCategoryResponse =
     Config_from_attributes (extend ExpenseCategoryBase ''ExpenseCategoryResponse''
       [required ''id'' TInt,
        required ''created_at'' TDatetime])"

definition DailyExpenseBase :: model where
  "DailyExpenseBase = BaseModel ''DailyExpenseBase''
     [required ''category'' TStr,
      required ''item_name'' TStr,
      optional ''description'' TStr,
      optional ''quantity'' TFloat,
      optional ''unit'' TStr,
      required ''unit_cost'' TFloat,
      required ''total_amount'' TFloat,
      optional ''expense_date'' TDatetime,
      optional ''receipt_number'' TStr,
      optional ''vendor'' TStr]"

definition DailyExpenseCreate :: model where
  "DailyExpenseCreate = extend DailyExpenseBase ''DailyExpenseCreate''
     [required ''branch_id'' TInt]"

definition DailyExpenseUpdate :: model where
  "DailyExpenseUpdate = BaseModel ''DailyExpenseUpdate''
     [optional ''category'' TStr,
      optional ''item_name'' TStr,
      optional ''description'' TStr,
      optional ''quantity'' TFloat,
      optional ''unit'' TStr,
      optional ''unit_cost'' TFloat,
      optional ''total_amount'' TFloat,
      optional ''expense_date'' TDatetime,
      optional ''receipt_number'' TStr,
      optional ''vendor'' TStr]"

definition DailyExpenseResponse :: model where
  "DailyExpenseResponse =
     Config_from_attributes (extend DailyExpenseBase ''DailyExpenseResponse''
       [required ''id'' TInt,
        required ''branch_id'' TInt,
        required ''created_by'' TInt,
        required ''created_at'' TDatetime])"

definition QuickExpenseCreate :: model where
  "QuickExpenseCreate = BaseModel ''QuickExpenseCreate''
     [required ''item_name'' TStr,
      required ''quantity'' TFloat,
      required ''unit'' TStr,
      required ''branch_id'' TInt,
      optional ''expense_date'' TDatetime]"

definition IngredientBase :: model where
  "IngredientBase = BaseModel ''IngredientBase''
     [required ''name'' TStr,
      required ''quantity'' TFloat,
      required ''unit'' TStr,
      optional ''image_url'' TStr]"

definition IngredientCreate :: model where
  "IngredientCreate = extend IngredientBase ''IngredientCreate'' []"

definition IngredientUpdate :: model where
  "IngredientUpdate = BaseModel ''IngredientUpdate''
     [optional ''name'' TStr,
      optional ''quantity'' TFloat,
      optional ''unit'' TStr,
      optional ''image_url'' TStr]"

definition IngredientResponse :: model where
  "IngredientResponse =
     Config_from_attributes (extend IngredientBase ''IngredientResponse''
       [required ''id'' TInt,
        required ''menu_item_id'' TInt])"

definition MenuItemBase :: model where
  "MenuItemBase = BaseModel ''MenuItemBase''
     [required ''name'' TStr,
      required ''price'' TFloat,
      optional ''description'' TStr,
      optional ''image_url'' TStr,
      optional ''category'' TStr,
      default_to ''is_available'' TBool (VBool True),
      optional ''branch_id'' TInt]"

definition MenuItemCreate :: model where
  "MenuItemCreate = extend MenuItemBase ''MenuItemCreate''
     [default_to ''ingredients'' (TList (TModel IngredientCreate)) (VList [])]"

definition MenuItemUpdate :: model where
  "MenuItemUpdate = BaseModel ''MenuItemUpdate''
     [optional ''name'' TStr,
      optional ''price'' TFloat,
      optional ''description'' TStr,
      optional ''image_url'' TStr,
      optional ''category'' TStr,
      optional ''is_available'' TBool,
      optional ''branch_id'' TInt,
      optional ''ingredients'' (TList (TModel IngredientCreate))]"

definition MenuItemResponse :: model where
  "MenuItemResponse =
     Config_from_attributes (extend MenuItemBase ''MenuItemResponse''
       [required ''id'' TInt,
        default_to ''ingredients'' (TList (TModel IngredientResponse)) (VList []),
        required ''created_at'' TDatetime,
        required ''updated_at'' TDatetime])"

definition OrderItemCreate :: model where
  "OrderItemCreate = BaseModel ''OrderItemCreate''
     [required ''menu_item_id'' TInt,
      required ''quantity'' TInt,
      optional ''special_instructions'' TStr]"

definition OrderItemResponse :: model where
  "OrderItemResponse = Config_from_attributes (BaseModel ''OrderItemResponse''
     [required ''id'' TInt,
      required ''menu_item_id'' TInt,
      required ''quantity'' TInt,
      required ''unit_price'' TFloat,
      required ''total_price'' TFloat,
      optional ''special_instructions'' TStr,
      optional ''menu_item'' (TModel MenuItemResponse)])"

definition OrderCreate :: model where
  "OrderCreate = BaseModel ''OrderCreate''
     [required ''branch_id'' TInt,
      optional ''customer_name'' TStr,
      optional ''customer_email'' TStr,
      default_to ''order_type'' TStr (VStr ''dine_in''),
      required ''items'' (TList (TModel OrderItemCreate))]"

definition OrderUpdate :: model where
  "OrderUpdate = BaseModel ''OrderUpdate''
     [optional ''status'' TStr,
      optional ''customer_name'' TStr,
      optional ''customer_email'' TStr]"

definition OrderResponse :: model where
  "OrderResponse = Config_from_attributes (BaseModel ''OrderResponse''
     [required ''id'' TInt,
      required ''branch_id'' TInt,
      optional ''customer_name'' TStr,
      optional ''customer_email'' TStr,
      required ''total_amount'' TFloat,
      required ''status'' TStr,
      required ''order_type'' TStr,
      required ''created_at'' TDatetime,
      optional ''completed_at'' TDatetime,
      default_to ''items'' (TList (TModel OrderItemResponse)) (VList [])])"

definition DailySaleCreate :: model where
  "DailySaleCreate = BaseModel ''DailySaleCreate''
     [required ''menu_item_id'' TInt,
      required ''branch_id'' TInt,
      required ''quantity'' TInt]"

definition DailySaleResponse :: model where
  "DailySaleResponse = Config_from_attributes (BaseModel ''DailySaleResponse''
     [required ''id'' TInt,
      required ''menu_item_id'' TInt,
      required ''branch_id'' TInt,
      required ''quantity'' TInt,
      required ''revenue'' TFloat,
      required ''sale_date'' TDatetime,
      optional ''menu_item'' (TModel MenuItemResponse)])"

definition SalesSummary :: model where
  "SalesSummary = BaseModel ''SalesSummary''
     [required ''date'' TStr,
      optional ''branch_id'' TInt,
      required ''total_items_sold'' TInt,
      required ''total_revenue'' TFloat,
      required ''sales_by_item'' (TList TDict)]"

definition AdminBase :: model where
  "AdminBase = BaseModel ''AdminBase''
     [required ''username'' TStr,
      required ''email'' TEmailStr,
      optional ''full_name'' TStr,
      default_to ''role'' TUserRole (VRole WORKER),
      optional ''branch_id'' TInt]"

definition AdminCreate :: model where
  "AdminCreate = extend AdminBase ''AdminCreate''
     [required ''password'' TStr]"

definition AdminUpdate :: model where
  "AdminUpdate = BaseModel ''AdminUpdate''
     [optional ''username'' TStr,
      optional ''email'' TEmailStr,
      optional ''full_name'' TStr,
      optional ''role'' TUserRole,
      optional ''branch_id'' TInt,
      optional ''is_active'' TBool]"

definition AdminLogin :: model where
  "AdminLogin = BaseModel ''AdminLogin''
     [required ''username'' TStr,
      required ''password'' TStr]"

definition AdminResponse :: model where
  "AdminResponse = Config_from_attributes (extend AdminBase ''AdminResponse''
     [required ''id'' TInt,
      required ''is_active'' TBool,
      required ''is_superuser'' TBool,
      required ''created_at'' TDatetime,
      optional ''last_login'' TDatetime,
      optional ''branch'' (TModel BranchResponse)])"

definition Token :: model where
  "Token = BaseModel ''Token''
     [required ''access_token'' TStr,
      required ''token_type'' TStr,
      required ''user'' (TModel AdminResponse)]"

definition TokenData :: model where
  "TokenData = BaseModel ''TokenData''
     [optional ''username'' TStr]"

definition InventoryBase :: model where
  "InventoryBase = BaseModel ''InventoryBase''
     [required ''item_name'' TStr,
      required ''current_stock'' TFloat,
      required ''unit'' TStr,
      default_to ''minimum_threshold'' (TOptional TFloat) (VInt 0),
      optional ''cost_per_unit'' TFloat,
      optional ''supplier'' TStr,
      required ''branch_id'' TInt]"

definition InventoryCreate :: model where
  "InventoryCreate = extend InventoryBase ''InventoryCreate'' []"

definition InventoryUpdate :: model where
  "InventoryUpdate = BaseModel ''InventoryUpdate''
     [optional ''item_name'' TStr,
      optional ''current_stock'' TFloat,
      optional ''unit'' TStr,
      optional ''minimum_threshold'' TFloat,
      optional ''cost_per_unit'' TFloat,
      optional ''supplier'' TStr]"

definition InventoryResponse :: model where
  "InventoryResponse =
     Config_from_attributes (extend InventoryBase ''InventoryResponse''
       [required ''id'' TInt,
        optional ''last_restocked'' TDatetime,
        required ''created_at'' TDatetime,
        required ''updated_at'' TDatetime])"

definition DailyReportResponse :: model where
  "DailyReportResponse = Config_from_attributes (BaseModel ''DailyReportResponse''
     [required ''id'' TInt,
      required ''branch_id'' TInt,
      required ''report_date'' TDatetime,
      required ''total_sales'' TInt,
      required ''total_revenue'' TFloat,
      required ''total_expenses'' TFloat,
      required ''net_profit'' TFloat,
      optional ''top_selling_item'' TStr,
      required ''export_status'' TStr,
      optional ''exported_at'' TDatetime,
      required ''created_at'' TDatetime])"

definition DashboardSummary :: model where
  "DashboardSummary = BaseModel ''DashboardSummary''
     [optional ''branch_id'' TInt,
      required ''today_sales'' TInt,
      required ''today_revenue'' TFloat,
      required ''today_expenses'' TFloat,
      required ''net_profit'' TFloat,
      required ''pending_orders'' TInt,
      required ''low_stock_items'' TInt,
      required ''top_selling_items'' (TList TDict),
      required ''recent_orders'' (TList (TModel OrderResponse)),
      required ''expense_breakdown'' (TList TDict)]"

definition ImageUploadResponse :: model where
  "ImageUploadResponse = with_validator ''url'' Validate_image_url
     (BaseModel ''ImageUploadResponse''
       [required ''url'' TStr,
        required ''filename'' TStr,
        required ''size'' TInt])"

text \<open>Every class of the file that is a shape.\<close>

definition schemas :: "model list" where
  "schemas =
     [UserResponse, BranchBase, BranchCreate, BranchUpdate, BranchResponse,
      ExpenseCategoryBase, ExpenseCategoryResponse, DailyExpenseBase, DailyExpenseCreate,
      DailyExpenseUpdate, DailyExpenseResponse, QuickExpenseCreate, IngredientBase,
      IngredientCreate, IngredientUpdate, IngredientResponse, MenuItemBase, MenuItemCreate,
      MenuItemUpdate, MenuItemResponse, OrderItemCreate, OrderItemResponse, OrderCreate,
      OrderUpdate, OrderResponse, DailySaleCreate, DailySaleResponse, SalesSummary,
      AdminBase, AdminCreate, AdminUpdate, AdminLogin, AdminResponse, Token, TokenData,
      InventoryBase, InventoryCreate, InventoryUpdate, InventoryResponse,
      DailyReportResponse, DashboardSummary, ImageUploadResponse]"

section \<open>Reading outcomes\<close>

definition succeeds :: "exn + 'a \<Rightarrow> bool" where
  "succeeds r = (case r of Inl e \<Rightarrow> False | Inr x \<Rightarrow> True)"

text \<open>The outcome of one declared field on an input, as \<open>validate_fields\<close> computes it.\<close>

definition field_outcome ::
  "lib \<Rightarrow> (string \<times> validator) list \<Rightarrow> (string \<times> raw) list \<Rightarrow> field \<Rightarrow> exn + val \<times> bool" where
  "field_outcome L vs kv f =
     (case map_of kv (fname f) of
        None \<Rightarrow> absent (fdefault f)
      | Some v \<Rightarrow> supplied (then_validators (validators_of vs (fname f)) (validate L (ftype f) v)))"

text \<open>The attributes of an instance: \<^verbatim>\<open>inst.n\<close>, the field values, the fields set.\<close>

fun values_of :: "val \<Rightarrow> (string \<times> val) list" where
  "values_of (VModel c vs fs) = vs"
| "values_of _ = []"

fun fields_set :: "val \<Rightarrow> string list" where
  "fields_set (VModel c vs fs) = fs"
| "fields_set _ = []"

definition attr :: "val \<Rightarrow> string \<Rightarrow> val option" where
  "attr inst n = map_of (values_of inst) n"

definition field_names :: "model \<Rightarrow> string list" where
  "field_names M = map fname (mfields M)"

definition field_value ::
  "lib \<Rightarrow> (string \<times> validator) list \<Rightarrow> (string \<times> raw) list \<Rightarrow> field \<Rightarrow> string \<times> val" where
  "field_value L vs kv f = (fname f, fst (projr (field_outcome L vs kv f)))"

definition field_given ::
  "lib \<Rightarrow> (string \<times> validator) list \<Rightarrow> (string \<times> raw) list \<Rightarrow> field \<Rightarrow> bool" where
  "field_given L vs kv f = snd (projr (field_outcome L vs kv f))"

text \<open>
  One library to evaluate the shapes with: it has no lax conversion but the one of a
  string to a \<^verbatim>\<open>datetime\<close>, asks an email address for an \<^verbatim>\<open>@\<close>, and prints the
  timestamp \<open>n\<close> as \<open>n\<close> dots.
\<close>

definition sample_lib :: lib where
  "sample_lib =
     \<lparr>lax_int = (\<lambda>v. None), lax_float = (\<lambda>v. None), lax_str = (\<lambda>v. None),
      lax_bool = (\<lambda>v. None),
      lax_datetime =
        (\<lambda>v. case v of RStr s \<Rightarrow> Some (Timestamp (length s)) | _ \<Rightarrow> None),
      validate_email = (\<lambda>s. if CHR ''@'' \<in> set s then Some s else None),
      isoformat = (\<lambda>d. case d of Timestamp n \<Rightarrow> replicate n CHR ''.'')\<rparr>"

text \<open>The shapes for partial updates, and the instance of one with every field \<^verbatim>\<open>None\<close>.\<close>

definition update_shapes :: "model list" where
  "update_shapes =
     [BranchUpdate, DailyExpenseUpdate, IngredientUpdate, MenuItemUpdate, OrderUpdate,
      AdminUpdate, InventoryUpdate]"

definition unset :: "model \<Rightarrow> string list \<Rightarrow> val" where
  "unset M given = VModel (mname M) (map (\<lambda>n. (n, VNone)) (field_names M)) given"



text \<open>The reasons that a line of a \<^verbatim>\<open>ValidationError\<close> of this file can give.\<close>

fun known_reason :: "reason \<Rightarrow> bool" where
  "known_reason (Value_error m) = (m = ''Invalid image format'')"
| "known_reason r = True"

text \<open>An exception is a report: a \<^verbatim>\<open>ValidationError\<close> with at least one line.\<close>

fun is_report :: "exn \<Rightarrow> bool" where
  "is_report (ValidationError ls) = (ls \<noteq> [] \<and> list_all (\<lambda>l. known_reason (snd l)) ls)"
| "is_report e = False"

fun lines :: "exn \<Rightarrow> error_line list" where
  "lines (ValidationError ls) = ls"
| "lines e = []"


section \<open>The wire mapping\<close>








section \<open>Properties of the validation functions\<close>

lemmas shape_defs =
  BaseModel_def extend_def Config_from_attributes_def with_validator_def
  required_def optional_def default_to_def

lemmas schema_defs =
  UserResponse_def BranchBase_def BranchCreate_def BranchUpdate_def BranchResponse_def
  ExpenseCategoryBase_def ExpenseCategoryResponse_def DailyExpenseBase_def
  DailyExpenseCreate_def DailyExpenseUpdate_def DailyExpenseResponse_def
  QuickExpenseCreate_def IngredientBase_def IngredientCreate_def IngredientUpdate_def
  IngredientResponse_def MenuItemBase_def MenuItemCreate_def MenuItemUpdate_def
  MenuItemResponse_def OrderItemCreate_def OrderItemResponse_def OrderCreate_def
  OrderUpdate_def OrderResponse_def DailySaleCreate_def DailySaleResponse_def
  SalesSummary_def AdminBase_def AdminCreate_def AdminUpdate_def AdminLogin_def
  AdminResponse_def Token_def TokenData_def InventoryBase_def InventoryCreate_def
  InventoryUpdate_def InventoryResponse_def DailyReportResponse_def DashboardSummary_def
  ImageUploadResponse_def

lemmas steps =
  model_init_def model_validate_def absent_def supplied_def then_validators_def
  validators_of_def add_field_def new_instance_def refuse_def from_option_def located_def

lemma endswith_iff: "endswith s ext \<longleftrightarrow> (\<exists>p. s = p @ ext)"
  unfolding endswith_def
  by (metis append_eq_conv_conj append_take_drop_id diff_add_inverse2 length_append
      le_add2 length_drop)

lemma join_Inr_iff:
  "join k r rest g = Inr z \<longleftrightarrow> (\<exists>x y. r = Inr x \<and> rest = Inr y \<and> z = g x y)"
  by (cases "(k, r, rest, g)" rule: join.cases) auto

lemma validate_fields_Cons:
  "validate_fields L vs (f # fs) kv =
     join (Key (fname f)) (field_outcome L vs kv f) (validate_fields L vs fs kv)
       (add_field (fname f))"
  by (cases f) (simp add: field_outcome_def split: option.split)

lemma succeeds_Inr_iff: "succeeds r \<longleftrightarrow> (\<exists>x. r = Inr x)"
  by (cases r) (simp_all add: succeeds_def)

text \<open>
  The fields are accepted together or not at all: \<open>validate_fields\<close> returns values
  exactly when every declared field has an outcome, and then returns these outcomes.
\<close>

lemma validate_fields_Inr_iff:
  "validate_fields L vs fs kv = Inr acc \<longleftrightarrow>
     list_all (\<lambda>f. succeeds (field_outcome L vs kv f)) fs \<and>
     acc = (map (field_value L vs kv) fs, map fname (filter (field_given L vs kv) fs))"
proof (induction fs arbitrary: acc)
  case Nil
  show ?case by auto
next
  case (Cons f fs)
  have "validate_fields L vs (f # fs) kv = Inr acc \<longleftrightarrow>
        (\<exists>x y. field_outcome L vs kv f = Inr x \<and> validate_fields L vs fs kv = Inr y \<and>
           acc = add_field (fname f) x y)"
    by (simp only: validate_fields_Cons join_Inr_iff)
  also have "\<dots> \<longleftrightarrow> (\<exists>x. field_outcome L vs kv f = Inr x \<and>
        list_all (\<lambda>f. succeeds (field_outcome L vs kv f)) fs \<and>
        acc = add_field (fname f) x
          (map (field_value L vs kv) fs, map fname (filter (field_given L vs kv) fs)))"
    by (simp only: Cons.IH) blast
  also have "\<dots> \<longleftrightarrow> list_all (\<lambda>f. succeeds (field_outcome L vs kv f)) (f # fs) \<and>
     acc = (map (field_value L vs kv) (f # fs),
            map fname (filter (field_given L vs kv) (f # fs)))"
    by (cases "field_outcome L vs kv f")
       (simp_all add: succeeds_def add_field_def field_value_def field_given_def)
  finally show ?case .
qed

section \<open>Image URLs\<close>

lemma lower_photo_JPG: "lower ''photo.JPG'' = ''photo.jpg''"
  by code_simp

lemma lower_photo_bmp: "lower ''photo.bmp'' = ''photo.bmp''"
  by code_simp

lemma lower_img_exe: "lower ''http://x/img.exe'' = ''http://x/img.exe''"
  by code_simp

text \<open>
  C1. \<open>validate_image_url s\<close> returns \<open>s\<close> unchanged exactly when the lower-cased \<open>s\<close>
  ends with one of \<^verbatim>\<open>.jpg .jpeg .png .webp .gif\<close>, and raises the \<^verbatim>\<open>ValueError\<close>
  "Invalid image format" otherwise. Constructing \<^verbatim>\<open>ImageUploadResponse\<close> with
  \<^verbatim>\<open>url = s\<close> (a file name and a size beside it) then succeeds with the url as given,
  and otherwise fails with a \<^verbatim>\<open>ValidationError\<close> whose only line is that message, at
  \<^verbatim>\<open>url\<close>.
\<close>

theorem validate_image_url_accepts_iff:
  "validate_image_url s =
     (if \<exists>ext \<in> {''.jpg'', ''.jpeg'', ''.png'', ''.webp'', ''.gif''}. \<exists>p. lower s = p @ ext
      then Inr s else Inl (ValueError ''Invalid image format''))
   \<and> model_init L ImageUploadResponse
       [(''url'', RStr s), (''filename'', RStr f), (''size'', RInt n)] =
     (if \<exists>ext \<in> {''.jpg'', ''.jpeg'', ''.png'', ''.webp'', ''.gif''}. \<exists>p. lower s = p @ ext
      then Inr (VModel ''ImageUploadResponse''
             [(''url'', VStr s), (''filename'', VStr f), (''size'', VInt n)]
             [''url'', ''filename'', ''size''])
      else Inl (ValidationError [([Key ''url''], Value_error ''Invalid image format'')]))"
proof -
  have v: "validate_image_url s =
     (if \<exists>ext \<in> {''.jpg'', ''.jpeg'', ''.png'', ''.webp'', ''.gif''}. \<exists>p. lower s = p @ ext
      then Inr s else Inl (ValueError ''Invalid image format''))"
    by (simp add: validate_image_url_def allowed_extensions_def endswith_iff)
  have c: "model_init L ImageUploadResponse
       [(''url'', RStr s), (''filename'', RStr f), (''size'', RInt n)] =
     (case validate_image_url s of
        Inr s' \<Rightarrow> Inr (VModel ''ImageUploadResponse''
             [(''url'', VStr s'), (''filename'', VStr f), (''size'', VInt n)]
             [''url'', ''filename'', ''size''])
      | Inl e \<Rightarrow> Inl (ValidationError [([Key ''url''], Value_error ''Invalid image format'')]))"
    by (cases "list_ex (\<lambda>ext. endswith (lower s) ext) allowed_extensions")
       (simp_all add: ImageUploadResponse_def shape_defs steps validate_image_url_def)
  show ?thesis
    unfolding c unfolding v by simp
qed

theorem validate_image_url_accepts_iff_witness:
  "validate_image_url ''photo.JPG'' = Inr ''photo.JPG''
   \<and> validate_image_url ''photo.bmp'' = Inl (ValueError ''Invalid image format'')
   \<and> model_init sample_lib ImageUploadResponse
       [(''url'', RStr ''http://x/img.exe''), (''filename'', RStr ''img.exe''),
        (''size'', RInt 10)] =
      Inl (ValidationError [([Key ''url''], Value_error ''Invalid image format'')])"
  using validate_image_url_accepts_iff [of "''photo.JPG''"]
    validate_image_url_accepts_iff [of "''photo.bmp''"]
    validate_image_url_accepts_iff [of "''http://x/img.exe''" sample_lib "''img.exe''" 10]
  by (simp add: lower_photo_JPG lower_photo_bmp lower_img_exe endswith_iff [symmetric]
      endswith_def)

section \<open>Orders\<close>

text \<open>
  C8. \<^verbatim>\<open>OrderCreate(branch_id=1, items=[])\<close> succeeds: the empty list of items is
  accepted, and \<^verbatim>\<open>order_type\<close>, which the payload lacks, is \<^verbatim>\<open>"dine_in"\<close>.
\<close>

theorem OrderCreate_empty_items:
  "model_init L OrderCreate [(''branch_id'', RInt 1), (''items'', RList [])] =
     Inr (VModel ''OrderCreate''
       [(''branch_id'', VInt 1), (''customer_name'', VNone), (''customer_email'', VNone),
        (''order_type'', VStr ''dine_in''), (''items'', VList [])]
       [''branch_id'', ''items''])"
  by (simp add: OrderCreate_def shape_defs steps)

section \<open>Constructing a shape\<close>

lemma model_init_Inr_iff:
  "model_init L M p = Inr inst \<longleftrightarrow>
     list_all (\<lambda>f. succeeds (field_outcome L (mvalidators M) p f)) (mfields M) \<and>
     inst = VModel (mname M) (map (field_value L (mvalidators M) p) (mfields M))
              (map fname (filter (field_given L (mvalidators M) p) (mfields M)))"
proof (cases M)
  case (Model c fa fs vs)
  show ?thesis
  proof (cases "validate_fields L vs fs p")
    case (Inl e)
    with Model validate_fields_Inr_iff [of L vs fs p] show ?thesis
      by (auto simp: model_init_def)
  next
    case (Inr acc)
    with Model validate_fields_Inr_iff [of L vs fs p acc] show ?thesis
      by (auto simp: model_init_def new_instance_def)
  qed
qed

lemma model_init_succeeds:
  "succeeds (model_init L M p) \<longleftrightarrow>
     list_all (\<lambda>f. succeeds (field_outcome L (mvalidators M) p f)) (mfields M)"
  by (simp add: succeeds_Inr_iff model_init_Inr_iff)

lemmas outcome_steps =
  field_outcome_def field_value_def field_given_def absent_def supplied_def
  then_validators_def validators_of_def refuse_def from_option_def succeeds_def

lemma map_of_field_value:
  "map_of (map (field_value L vs kv) fs) n =
     map_option (\<lambda>f. fst (projr (field_outcome L vs kv f))) (find (\<lambda>f. fname f = n) fs)"
  by (induction fs) (simp_all add: field_value_def)

lemma attr_model_init:
  "model_init L M p = Inr inst \<Longrightarrow>
     attr inst n =
       map_option (\<lambda>f. fst (projr (field_outcome L (mvalidators M) p f)))
         (find (\<lambda>f. fname f = n) (mfields M))"
  by (simp add: model_init_Inr_iff attr_def map_of_field_value)

lemma fields_set_model_init:
  "model_init L M p = Inr inst \<Longrightarrow>
     fields_set inst = map fname (filter (field_given L (mvalidators M) p) (mfields M))"
  by (simp add: model_init_Inr_iff)

section \<open>Daily expenses\<close>



section \<open>Partial updates\<close>

lemma BranchUpdate_unset:
  "model_init L BranchUpdate [] = Inr (unset BranchUpdate [])"
  "n \<in> set (field_names BranchUpdate) \<Longrightarrow>
     model_init L BranchUpdate [(n, RNone)] = Inr (unset BranchUpdate [n])"
   apply (simp add: BranchUpdate_def shape_defs steps unset_def field_names_def)
  apply (simp add: field_names_def BranchUpdate_def shape_defs)
  apply (elim disjE)
       apply (simp_all add: steps unset_def field_names_def)
  done

lemma DailyExpenseUpdate_unset:
  "model_init L DailyExpenseUpdate [] = Inr (unset DailyExpenseUpdate [])"
  "n \<in> set (field_names DailyExpenseUpdate) \<Longrightarrow>
     model_init L DailyExpenseUpdate [(n, RNone)] = Inr (unset DailyExpenseUpdate [n])"
   apply (simp add: DailyExpenseUpdate_def shape_defs steps unset_def field_names_def)
  apply (simp add: field_names_def DailyExpenseUpdate_def shape_defs)
  apply (elim disjE)
           apply (simp_all add: steps unset_def field_names_def)
  done

lemma IngredientUpdate_unset:
  "model_init L IngredientUpdate [] = Inr (unset IngredientUpdate [])"
  "n \<in> set (field_names IngredientUpdate) \<Longrightarrow>
     model_init L IngredientUpdate [(n, RNone)] = Inr (unset IngredientUpdate [n])"
   apply (simp add: IngredientUpdate_def shape_defs steps unset_def field_names_def)
  apply (simp add: field_names_def IngredientUpdate_def shape_defs)
  apply (elim disjE)
     apply (simp_all add: steps unset_def field_names_def)
  done

lemma MenuItemUpdate_unset:
  "model_init L MenuItemUpdate [] = Inr (unset MenuItemUpdate [])"
  "n \<in> set (field_names MenuItemUpdate) \<Longrightarrow>
     model_init L MenuItemUpdate [(n, RNone)] = Inr (unset MenuItemUpdate [n])"
   apply (simp add: MenuItemUpdate_def shape_defs steps unset_def field_names_def)
  apply (simp add: field_names_def MenuItemUpdate_def shape_defs)
  apply (elim disjE)
         apply (simp_all add: steps unset_def field_names_def)
  done

lemma OrderUpdate_unset:
  "model_init L OrderUpdate [] = Inr (unset OrderUpdate [])"
  "n \<in> set (field_names OrderUpdate) \<Longrightarrow>
     model_init L OrderUpdate [(n, RNone)] = Inr (unset OrderUpdate [n])"
   apply (simp add: OrderUpdate_def shape_defs steps unset_def field_names_def)
  apply (simp add: field_names_def OrderUpdate_def shape_defs)
  apply (elim disjE)
    apply (simp_all add: steps unset_def field_names_def)
  done

lemma AdminUpdate_unset:
  "model_init L AdminUpdate [] = Inr (unset AdminUpdate [])"
  "n \<in> set (field_names AdminUpdate) \<Longrightarrow>
     model_init L AdminUpdate [(n, RNone)] = Inr (unset AdminUpdate [n])"
   apply (simp add: AdminUpdate_def shape_defs steps unset_def field_names_def)
  apply (simp add: field_names_def AdminUpdate_def shape_defs)
  apply (elim disjE)
       apply (simp_all add: steps unset_def field_names_def)
  done

lemma InventoryUpdate_unset:
  "model_init L InventoryUpdate [] = Inr (unset InventoryUpdate [])"
  "n \<in> set (field_names InventoryUpdate) \<Longrightarrow>
     model_init L InventoryUpdate [(n, RNone)] = Inr (unset InventoryUpdate [n])"
   apply (simp add: InventoryUpdate_def shape_defs steps unset_def field_names_def)
  apply (simp add: field_names_def InventoryUpdate_def shape_defs)
  apply (elim disjE)
       apply (simp_all add: steps unset_def field_names_def)
  done

lemmas each_update_shape =
  BranchUpdate_unset DailyExpenseUpdate_unset IngredientUpdate_unset MenuItemUpdate_unset
  OrderUpdate_unset AdminUpdate_unset InventoryUpdate_unset

text \<open>
  C3. Each of the seven update shapes accepts the empty payload. The instance has
  \<^verbatim>\<open>None\<close> in every field and no field in \<^verbatim>\<open>model_fields_set\<close>. Supplying a field
  \<open>n\<close> as an explicit null gives the same values with \<open>n\<close> in \<^verbatim>\<open>model_fields_set\<close>: a
  different instance, so that a field left out is told from a field set to null.
\<close>

theorem update_shapes_unset:
  "M \<in> set update_shapes \<Longrightarrow>
     model_init L M [] = Inr (unset M []) \<and>
     values_of (unset M []) = map (\<lambda>n. (n, VNone)) (field_names M) \<and>
     fields_set (unset M []) = [] \<and>
     (\<forall>n \<in> set (field_names M).
        model_init L M [(n, RNone)] = Inr (unset M [n]) \<and>
        values_of (unset M [n]) = values_of (unset M []) \<and>
        fields_set (unset M [n]) = [n] \<and>
        unset M [n] \<noteq> unset M [])"
  unfolding update_shapes_def
  by (auto simp: each_update_shape) (simp_all add: unset_def)

theorem update_shapes_unset_witness:
  "OrderUpdate \<in> set update_shapes
   \<and> model_init sample_lib OrderUpdate [] =
      Inr (VModel ''OrderUpdate''
        [(''status'', VNone), (''customer_name'', VNone), (''customer_email'', VNone)] [])
   \<and> model_init sample_lib OrderUpdate [(''status'', RNone)] =
      Inr (VModel ''OrderUpdate''
        [(''status'', VNone), (''customer_name'', VNone), (''customer_email'', VNone)]
        [''status''])"
proof -
  have m: "OrderUpdate \<in> set update_shapes"
    by (simp add: update_shapes_def)
  have n: "''status'' \<in> set (field_names OrderUpdate)"
    by (simp add: field_names_def OrderUpdate_def shape_defs)
  have u: "unset OrderUpdate given = VModel ''OrderUpdate''
        [(''status'', VNone), (''customer_name'', VNone), (''customer_email'', VNone)] given"
    for given
    by (simp add: unset_def field_names_def OrderUpdate_def shape_defs)
  from update_shapes_unset [OF m, of sample_lib] n
  have "model_init sample_lib OrderUpdate [] = Inr (unset OrderUpdate [])"
    and "model_init sample_lib OrderUpdate [(''status'', RNone)] =
         Inr (unset OrderUpdate [''status''])"
    by blast+
  with m show ?thesis by (simp add: u)
qed

section \<open>Roles\<close>

lemma AdminBase_role:
  "succeeds (model_init L AdminBase ((''role'', RStr r) # p)) \<longleftrightarrow>
     (r = ''admin'' \<or> r = ''worker'') \<and>
     succeeds (model_init L AdminBase ((''role'', RStr ''worker'') # p))"
  unfolding model_init_succeeds
  by (auto simp add: AdminBase_def shape_defs outcome_steps UserRole_of_def)

lemma AdminCreate_role:
  "succeeds (model_init L AdminCreate ((''role'', RStr r) # p)) \<longleftrightarrow>
     (r = ''admin'' \<or> r = ''worker'') \<and>
     succeeds (model_init L AdminCreate ((''role'', RStr ''worker'') # p))"
  unfolding model_init_succeeds
  by (auto simp add: AdminCreate_def AdminBase_def shape_defs outcome_steps UserRole_of_def)

lemma AdminUpdate_role:
  "succeeds (model_init L AdminUpdate ((''role'', RStr r) # p)) \<longleftrightarrow>
     (r = ''admin'' \<or> r = ''worker'') \<and>
     succeeds (model_init L AdminUpdate ((''role'', RStr ''worker'') # p))"
  unfolding model_init_succeeds
  by (auto simp add: AdminUpdate_def shape_defs outcome_steps UserRole_of_def)

lemma AdminResponse_role:
  "succeeds (model_init L AdminResponse ((''role'', RStr r) # p)) \<longleftrightarrow>
     (r = ''admin'' \<or> r = ''worker'') \<and>
     succeeds (model_init L AdminResponse ((''role'', RStr ''worker'') # p))"
  unfolding model_init_succeeds
  by (auto simp add: AdminResponse_def AdminBase_def shape_defs outcome_steps UserRole_of_def)

lemma UserResponse_role:
  "succeeds (model_init L UserResponse ((''role'', RStr r) # p)) \<longleftrightarrow>
     succeeds (model_init L UserResponse ((''role'', RStr ''worker'') # p))"
  unfolding model_init_succeeds
  by (auto simp add: UserResponse_def shape_defs outcome_steps)

text \<open>
  C2, as the spec has it, fails on \<^verbatim>\<open>UserResponse\<close>, whose \<^verbatim>\<open>role\<close> is declared
  \<^verbatim>\<open>str\<close>: the role \<^verbatim>\<open>"manager"\<close> is accepted and kept.
\<close>

theorem UserResponse_accepts_manager:
  "''manager'' \<noteq> ''admin'' \<and> ''manager'' \<noteq> ''worker''
   \<and> model_init sample_lib UserResponse
     [(''id'', RInt 7), (''username'', RStr ''ana''), (''email'', RStr ''ana@example.com''),
      (''full_name'', RStr ''Ana''), (''role'', RStr ''manager''), (''is_active'', RBool True),
      (''is_superuser'', RBool False), (''created_at'', RDatetime (Timestamp 0))] =
   Inr (VModel ''UserResponse''
     [(''id'', VInt 7), (''username'', VStr ''ana''), (''email'', VStr ''ana@example.com''),
      (''full_name'', VStr ''Ana''), (''role'', VStr ''manager''), (''branch_id'', VNone),
      (''is_active'', VBool True), (''is_superuser'', VBool False),
      (''created_at'', VDatetime (Timestamp 0))]
     [''id'', ''username'', ''email'', ''full_name'', ''role'', ''is_active'',
      ''is_superuser'', ''created_at''])"
  by (simp add: UserResponse_def shape_defs steps)

text \<open>
  C2, amended. For the shapes \<^verbatim>\<open>AdminBase\<close>, \<^verbatim>\<open>AdminCreate\<close>, \<^verbatim>\<open>AdminUpdate\<close> and
  \<^verbatim>\<open>AdminResponse\<close>, whose \<^verbatim>\<open>role\<close> is a \<^verbatim>\<open>UserRole\<close>: a payload with the role string
  \<open>r\<close> is accepted exactly when \<open>r\<close> is \<^verbatim>\<open>"admin"\<close> or \<^verbatim>\<open>"worker"\<close> (case-sensitive)
  and the rest of the payload is acceptable, that is, accepted with the role
  \<^verbatim>\<open>"worker"\<close>. For \<^verbatim>\<open>UserResponse\<close> the role string does not matter: every string is
  accepted where \<^verbatim>\<open>"worker"\<close> is.
\<close>

theorem role_accepted_iff:
  "(succeeds (model_init L AdminBase ((''role'', RStr r) # p)) \<longleftrightarrow>
      (r = ''admin'' \<or> r = ''worker'') \<and>
      succeeds (model_init L AdminBase ((''role'', RStr ''worker'') # p)))
   \<and> (succeeds (model_init L AdminCreate ((''role'', RStr r) # p)) \<longleftrightarrow>
      (r = ''admin'' \<or> r = ''worker'') \<and>
      succeeds (model_init L AdminCreate ((''role'', RStr ''worker'') # p)))
   \<and> (succeeds (model_init L AdminUpdate ((''role'', RStr r) # p)) \<longleftrightarrow>
      (r = ''admin'' \<or> r = ''worker'') \<and>
      succeeds (model_init L AdminUpdate ((''role'', RStr ''worker'') # p)))
   \<and> (succeeds (model_init L AdminResponse ((''role'', RStr r) # p)) \<longleftrightarrow>
      (r = ''admin'' \<or> r = ''worker'') \<and>
      succeeds (model_init L AdminResponse ((''role'', RStr ''worker'') # p)))
   \<and> (succeeds (model_init L UserResponse ((''role'', RStr r) # p)) \<longleftrightarrow>
      succeeds (model_init L UserResponse ((''role'', RStr ''worker'') # p)))"
  using AdminBase_role [of L r p] AdminCreate_role [of L r p] AdminUpdate_role [of L r p]
    AdminResponse_role [of L r p] UserResponse_role [of L r p]
  by blast

text \<open>
  An admin payload with the roles \<^verbatim>\<open>"manager"\<close>, \<^verbatim>\<open>"Admin"\<close>, \<^verbatim>\<open>"admin"\<close> and
  \<^verbatim>\<open>"worker"\<close>.
\<close>

theorem role_accepted_iff_witness:
  "\<not> succeeds (model_init sample_lib AdminCreate
       [(''role'', RStr ''manager''), (''username'', RStr ''ana''),
        (''email'', RStr ''ana@example.com''), (''password'', RStr ''secret'')])
   \<and> \<not> succeeds (model_init sample_lib AdminCreate
       [(''role'', RStr ''Admin''), (''username'', RStr ''ana''),
        (''email'', RStr ''ana@example.com''), (''password'', RStr ''secret'')])
   \<and> succeeds (model_init sample_lib AdminCreate
       [(''role'', RStr ''admin''), (''username'', RStr ''ana''),
        (''email'', RStr ''ana@example.com''), (''password'', RStr ''secret'')])
   \<and> succeeds (model_init sample_lib AdminCreate
       [(''role'', RStr ''worker''), (''username'', RStr ''ana''),
        (''email'', RStr ''ana@example.com''), (''password'', RStr ''secret'')])"
proof -
  let ?p = "[(''username'', RStr ''ana''), (''email'', RStr ''ana@example.com''),
             (''password'', RStr ''secret'')]"
  have w: "succeeds (model_init sample_lib AdminCreate ((''role'', RStr ''worker'') # ?p))"
    by (simp add: AdminCreate_def AdminBase_def shape_defs steps sample_lib_def
        UserRole_of_def succeeds_def)
  from role_accepted_iff [of sample_lib "''manager''" ?p]
    role_accepted_iff [of sample_lib "''Admin''" ?p]
    role_accepted_iff [of sample_lib "''admin''" ?p] w
  show ?thesis by simp
qed

section \<open>Email addresses\<close>

text \<open>The shapes of the file with a field of type \<^verbatim>\<open>EmailStr\<close>.\<close>

lemma EmailStr_shapes:
  "map mname (filter (\<lambda>M. list_ex (\<lambda>f. ftype f = TEmailStr \<or> ftype f = TOptional TEmailStr)
       (mfields M)) schemas) =
   [''AdminBase'', ''AdminCreate'', ''AdminUpdate'', ''AdminResponse'']"
  by (simp add: schemas_def schema_defs shape_defs)

text \<open>
  C9. The email address is checked where the field is an \<^verbatim>\<open>EmailStr\<close>, which is the
  \<^verbatim>\<open>email\<close> of \<^verbatim>\<open>AdminBase\<close> (and of \<^verbatim>\<open>AdminCreate\<close> and \<^verbatim>\<open>AdminResponse\<close>,
  which inherit it) and of \<^verbatim>\<open>AdminUpdate\<close>, and of no other shape: there a string is
  accepted exactly when the check of the library accepts it. For every string \<open>v\<close>, however malformed, \<^verbatim>\<open>BranchBase\<close> and
  \<^verbatim>\<open>BranchCreate\<close> with \<^verbatim>\<open>email = v\<close>, \<^verbatim>\<open>OrderCreate\<close> with \<^verbatim>\<open>customer_email = v\<close> and
  \<^verbatim>\<open>UserResponse\<close> with \<^verbatim>\<open>email = v\<close> are constructed and hold \<open>v\<close>.
\<close>

theorem email_checked_only_as_EmailStr:
  "(\<exists>inst. model_init L BranchBase [(''name'', RStr n), (''email'', RStr v)] = Inr inst \<and>
      attr inst ''email'' = Some (VStr v))
   \<and> (\<exists>inst. model_init L BranchCreate [(''name'', RStr n), (''email'', RStr v)] = Inr inst \<and>
      attr inst ''email'' = Some (VStr v))
   \<and> (\<exists>inst. model_init L OrderCreate
        [(''branch_id'', RInt b), (''customer_email'', RStr v), (''items'', RList [])] =
        Inr inst \<and>
      attr inst ''customer_email'' = Some (VStr v))
   \<and> (\<exists>inst. model_init L UserResponse
        [(''id'', RInt i), (''username'', RStr u), (''email'', RStr v),
         (''full_name'', RStr fn), (''role'', RStr r), (''is_active'', RBool a),
         (''is_superuser'', RBool su), (''created_at'', RDatetime d)] = Inr inst \<and>
      attr inst ''email'' = Some (VStr v))
   \<and> (succeeds (model_init L AdminBase [(''username'', RStr u), (''email'', RStr v)]) \<longleftrightarrow>
        validate_email L v \<noteq> None)
   \<and> (succeeds (model_init L AdminCreate
         [(''username'', RStr u), (''email'', RStr v), (''password'', RStr pw)]) \<longleftrightarrow>
        validate_email L v \<noteq> None)
   \<and> (succeeds (model_init L AdminUpdate [(''email'', RStr v)]) \<longleftrightarrow>
        validate_email L v \<noteq> None)
   \<and> map mname (filter (\<lambda>M. list_ex
          (\<lambda>f. ftype f = TEmailStr \<or> ftype f = TOptional TEmailStr) (mfields M)) schemas) =
      [''AdminBase'', ''AdminCreate'', ''AdminUpdate'', ''AdminResponse'']"
proof (intro conjI)
  show "\<exists>inst. model_init L BranchBase [(''name'', RStr n), (''email'', RStr v)] = Inr inst \<and>
      attr inst ''email'' = Some (VStr v)"
    by (simp add: BranchBase_def shape_defs steps attr_def)
  show "\<exists>inst. model_init L BranchCreate [(''name'', RStr n), (''email'', RStr v)] = Inr inst \<and>
      attr inst ''email'' = Some (VStr v)"
    by (simp add: BranchCreate_def BranchBase_def shape_defs steps attr_def)
  show "\<exists>inst. model_init L OrderCreate
        [(''branch_id'', RInt b), (''customer_email'', RStr v), (''items'', RList [])] =
        Inr inst \<and>
      attr inst ''customer_email'' = Some (VStr v)"
    by (simp add: OrderCreate_def shape_defs steps attr_def)
  show "\<exists>inst. model_init L UserResponse
        [(''id'', RInt i), (''username'', RStr u), (''email'', RStr v),
         (''full_name'', RStr fn), (''role'', RStr r), (''is_active'', RBool a),
         (''is_superuser'', RBool su), (''created_at'', RDatetime d)] = Inr inst \<and>
      attr inst ''email'' = Some (VStr v)"
    by (simp add: UserResponse_def shape_defs steps attr_def)
  show "succeeds (model_init L AdminBase [(''username'', RStr u), (''email'', RStr v)]) \<longleftrightarrow>
        validate_email L v \<noteq> None"
    unfolding model_init_succeeds
    by (auto simp add: AdminBase_def shape_defs outcome_steps split: option.splits)
  show "succeeds (model_init L AdminCreate
         [(''username'', RStr u), (''email'', RStr v), (''password'', RStr pw)]) \<longleftrightarrow>
        validate_email L v \<noteq> None"
    unfolding model_init_succeeds
    by (auto simp add: AdminCreate_def AdminBase_def shape_defs outcome_steps
        split: option.splits)
  show "succeeds (model_init L AdminUpdate [(''email'', RStr v)]) \<longleftrightarrow>
        validate_email L v \<noteq> None"
    unfolding model_init_succeeds
    by (auto simp add: AdminUpdate_def shape_defs outcome_steps split: option.splits)
  show "map mname (filter (\<lambda>M. list_ex
          (\<lambda>f. ftype f = TEmailStr \<or> ftype f = TOptional TEmailStr) (mfields M)) schemas) =
      [''AdminBase'', ''AdminCreate'', ''AdminUpdate'', ''AdminResponse'']"
    by (rule EmailStr_shapes)
qed

text \<open>The string \<^verbatim>\<open>"not an email"\<close> as the email of a branch and of an admin.\<close>

theorem email_checked_only_as_EmailStr_witness:
  "model_init sample_lib BranchCreate [(''name'', RStr ''Main''), (''email'', RStr ''not an email'')] =
     Inr (VModel ''BranchCreate''
       [(''name'', VStr ''Main''), (''location'', VNone), (''address'', VNone),
        (''phone'', VNone), (''email'', VStr ''not an email''), (''is_active'', VBool True)]
       [''name'', ''email''])
   \<and> \<not> succeeds (model_init sample_lib AdminBase
        [(''username'', RStr ''ana''), (''email'', RStr ''not an email'')])
   \<and> succeeds (model_init sample_lib AdminBase
        [(''username'', RStr ''ana''), (''email'', RStr ''ana@example.com'')])"
proof -
  have b: "model_init sample_lib BranchCreate
      [(''name'', RStr ''Main''), (''email'', RStr ''not an email'')] =
     Inr (VModel ''BranchCreate''
       [(''name'', VStr ''Main''), (''location'', VNone), (''address'', VNone),
        (''phone'', VNone), (''email'', VStr ''not an email''), (''is_active'', VBool True)]
       [''name'', ''email''])"
    by (simp add: BranchCreate_def BranchBase_def shape_defs steps)
  have "validate_email sample_lib ''not an email'' = None"
    and "validate_email sample_lib ''ana@example.com'' \<noteq> None"
    by (simp_all add: sample_lib_def)
  with email_checked_only_as_EmailStr [of sample_lib _ "''not an email''" _ _ "''ana''"]
    email_checked_only_as_EmailStr [of sample_lib _ "''ana@example.com''" _ _ "''ana''"] b
  show ?thesis by simp
qed

section \<open>The default role\<close>

lemma AdminBase_without_role:
  assumes "map_of p ''role'' = None"
  shows "succeeds (model_init L AdminBase p) \<longleftrightarrow>
         succeeds (model_init L AdminBase ((''role'', RStr ''worker'') # p))"
  using assms unfolding model_init_succeeds
  by (auto simp add: AdminBase_def shape_defs outcome_steps UserRole_of_def)

lemma AdminCreate_without_role:
  assumes "map_of p ''role'' = None"
  shows "succeeds (model_init L AdminCreate p) \<longleftrightarrow>
         succeeds (model_init L AdminCreate ((''role'', RStr ''worker'') # p))"
  using assms unfolding model_init_succeeds
  by (auto simp add: AdminCreate_def AdminBase_def shape_defs outcome_steps UserRole_of_def)

lemma AdminBase_role_default:
  assumes "map_of p ''role'' = None" and "model_init L AdminBase p = Inr inst"
  shows "attr inst ''role'' = Some (VRole WORKER) \<and> ''role'' \<notin> set (fields_set inst)"
  using attr_model_init [OF assms(2), of "''role''"] fields_set_model_init [OF assms(2)]
    assms(1)
  by (simp add: AdminBase_def shape_defs outcome_steps)

lemma AdminCreate_role_default:
  assumes "map_of p ''role'' = None" and "model_init L AdminCreate p = Inr inst"
  shows "attr inst ''role'' = Some (VRole WORKER) \<and> ''role'' \<notin> set (fields_set inst)"
  using attr_model_init [OF assms(2), of "''role''"] fields_set_model_init [OF assms(2)]
    assms(1)
  by (simp add: AdminCreate_def AdminBase_def shape_defs outcome_steps)

text \<open>
  C10. For every payload without \<^verbatim>\<open>role\<close>, \<^verbatim>\<open>AdminBase\<close> and \<^verbatim>\<open>AdminCreate\<close> are
  constructed whenever the payload is acceptable (it is accepted exactly when it is
  accepted with the role \<^verbatim>\<open>"worker"\<close> added), and the instance then has the role
  \<^verbatim>\<open>UserRole.WORKER\<close>, taken from the default and not counted as set.
\<close>

theorem role_defaults_to_worker:
  "map_of p ''role'' = None \<Longrightarrow>
     (succeeds (model_init L AdminBase p) \<longleftrightarrow>
        succeeds (model_init L AdminBase ((''role'', RStr ''worker'') # p)))
     \<and> (succeeds (model_init L AdminCreate p) \<longleftrightarrow>
        succeeds (model_init L AdminCreate ((''role'', RStr ''worker'') # p)))
     \<and> (\<forall>inst. model_init L AdminBase p = Inr inst \<or> model_init L AdminCreate p = Inr inst \<longrightarrow>
          attr inst ''role'' = Some (VRole WORKER) \<and> ''role'' \<notin> set (fields_set inst))"
  using AdminBase_without_role [of p L] AdminCreate_without_role [of p L]
    AdminBase_role_default [of p L] AdminCreate_role_default [of p L]
  by blast

theorem role_defaults_to_worker_witness:
  "map_of [(''username'', RStr ''ana''), (''email'', RStr ''ana@example.com''),
           (''password'', RStr ''secret'')] ''role'' = None
   \<and> model_init sample_lib AdminCreate
       [(''username'', RStr ''ana''), (''email'', RStr ''ana@example.com''),
        (''password'', RStr ''secret'')] =
      Inr (VModel ''AdminCreate''
        [(''username'', VStr ''ana''), (''email'', VStr ''ana@example.com''),
         (''full_name'', VNone), (''role'', VRole WORKER), (''branch_id'', VNone),
         (''password'', VStr ''secret'')]
        [''username'', ''email'', ''password''])
   \<and> model_init sample_lib AdminBase
       [(''username'', RStr ''ana''), (''email'', RStr ''ana@example.com''),
        (''password'', RStr ''secret'')] =
      Inr (VModel ''AdminBase''
        [(''username'', VStr ''ana''), (''email'', VStr ''ana@example.com''),
         (''full_name'', VNone), (''role'', VRole WORKER), (''branch_id'', VNone)]
        [''username'', ''email''])"
proof -
  let ?p = "[(''username'', RStr ''ana''), (''email'', RStr ''ana@example.com''),
             (''password'', RStr ''secret'')]"
  have n: "map_of ?p ''role'' = None"
    by simp
  have c: "model_init sample_lib AdminCreate ?p =
      Inr (VModel ''AdminCreate''
        [(''username'', VStr ''ana''), (''email'', VStr ''ana@example.com''),
         (''full_name'', VNone), (''role'', VRole WORKER), (''branch_id'', VNone),
         (''password'', VStr ''secret'')]
        [''username'', ''email'', ''password''])"
    by (simp add: AdminCreate_def AdminBase_def shape_defs steps sample_lib_def)
  have b: "model_init sample_lib AdminBase ?p =
      Inr (VModel ''AdminBase''
        [(''username'', VStr ''ana''), (''email'', VStr ''ana@example.com''),
         (''full_name'', VNone), (''role'', VRole WORKER), (''branch_id'', VNone)]
        [''username'', ''email''])"
    by (simp add: AdminBase_def shape_defs steps sample_lib_def)
  from role_defaults_to_worker [OF n, of sample_lib] n b c
  show ?thesis by simp
qed

section \<open>Reading a record\<close>



lemma model_validate_RDict: "model_validate L M (RDict kv) = model_init L M kv"
  by (simp add: model_validate_def model_init_def)








section \<open>Refusals\<close>


lemma run_validators_Nil_report:
  "run_validators [] w = Inl e \<Longrightarrow> is_report e"
  by simp




lemma is_report_append:
  "is_report (ValidationError ls) \<Longrightarrow> is_report (ValidationError ms) \<Longrightarrow>
     is_report (ValidationError (ls @ ms))"
  by simp














section \<open>Serialising and parsing back\<close>






















end
